theory Spec2Isabelle
  imports Complex_Main "HOL-Library.AList"
begin

section \<open>Frames, series and the library operations the engine calls\<close>

text \<open>
  A cell of a frame is a number or a string; a null cell (NaN) is \<open>None\<close>. Numbers are
  exact rationals: the rounding of binary floating point is not part of the model, and the
  literals 1.1, 0.9, 1.5, 0.05, 0.25, 0.75 stand for the fractions they denote. Infinite
  values are outside the model.

  A frame is kept row by row, with its column labels in order, each row holding one cell
  for each label. \<open>len(df)\<close> is the number of rows and \<open>len(df.columns)\<close> the number of
  labels. A column has a numeric dtype when none of its cells is a string, which is how
  \<open>read_csv\<close> infers it; the values of a boolean dtype, which the library counts as
  numeric, are the numbers 0 and 1.

  Where a label occurs more than once, \<open>df[col]\<close> is a frame and not a column. The type
  detection, the profile and the cleaning raise on it, as modelled below; the analysers
  are given frames on which the type detection has succeeded, whose labels are distinct,
  and \<open>getcol\<close> reads the first column under a label.
\<close>

datatype cell = Num rat | Str string

type_synonym series = "cell option list"

record dataframe =
  df_columns :: "string list"
  df_rows :: "cell option list list"

datatype error =
  KeyError | IndexError | TypeError | UnicodeDecodeError | ParserError | EmptyDataError
  | ValueError string

definition ebind :: "error + 'a \<Rightarrow> ('a \<Rightarrow> error + 'b) \<Rightarrow> error + 'b" where
  "ebind m f = (case m of Inl e \<Rightarrow> Inl e | Inr x \<Rightarrow> f x)"

definition cell_at :: "cell option list \<Rightarrow> nat \<Rightarrow> cell option" where
  "cell_at r i = (if i < length r then r ! i else None)"

fun label_pos :: "string \<Rightarrow> string list \<Rightarrow> nat option" where
  "label_pos c [] = None"
| "label_pos c (l # ls) =
     (if l = c then Some 0 else (case label_pos c ls of None \<Rightarrow> None | Some i \<Rightarrow> Some (Suc i)))"

definition column_at :: "dataframe \<Rightarrow> nat \<Rightarrow> series" where
  "column_at df i = map (\<lambda>r. cell_at r i) (df_rows df)"

text \<open>\<open>df[col]\<close>: the column under a label, \<open>KeyError\<close> when the frame has no such label.\<close>

definition getcol :: "dataframe \<Rightarrow> string \<Rightarrow> error + series" where
  "getcol df c =
     (case label_pos c (df_columns df) of
        None \<Rightarrow> Inl KeyError
      | Some i \<Rightarrow> Inr (column_at df i))"

definition len_df :: "dataframe \<Rightarrow> nat" where
  "len_df df = length (df_rows df)"

text \<open>\<open>df.empty\<close>: the frame has no row or no column.\<close>

definition df_empty :: "dataframe \<Rightarrow> bool" where
  "df_empty df = (len_df df = 0 \<or> length (df_columns df) = 0)"

definition dropna :: "series \<Rightarrow> cell list" where
  "dropna s = concat (map (\<lambda>c. case c of None \<Rightarrow> [] | Some v \<Rightarrow> [v]) s)"

definition isna_sum :: "series \<Rightarrow> nat" where
  "isna_sum s = length (filter (\<lambda>c. c = None) s)"

definition isna_all :: "series \<Rightarrow> bool" where
  "isna_all s = list_all (\<lambda>c. c = None) s"

definition nunique :: "series \<Rightarrow> nat" where
  "nunique s = length (remdups (dropna s))"

fun is_num :: "cell \<Rightarrow> bool" where
  "is_num (Num r) = True"
| "is_num (Str s) = False"

fun num_of :: "cell \<Rightarrow> rat" where
  "num_of (Num r) = r"
| "num_of (Str s) = 0"

definition is_numeric_dtype :: "series \<Rightarrow> bool" where
  "is_numeric_dtype s = list_all is_num (dropna s)"

text \<open>
  The numbers of a column after \<open>dropna\<close>. A statistic asked of a column that holds a
  string raises \<open>TypeError\<close>.
\<close>

definition numeric_data :: "cell list \<Rightarrow> error + rat list" where
  "numeric_data d = (if list_all is_num d then Inr (map num_of d) else Inl TypeError)"

definition mean :: "rat list \<Rightarrow> rat" where
  "mean xs = sum_list xs / of_nat (length xs)"

definition median :: "rat list \<Rightarrow> rat" where
  "median xs =
     (let s = sort xs; n = length s in
      if n mod 2 = 1 then s ! (n div 2) else (s ! (n div 2 - 1) + s ! (n div 2)) / 2)"

text \<open>
  \<open>Series.quantile(q)\<close> with the library's default linear interpolation: on the sorted
  values the position is \<open>(n - 1) * q\<close>, and the result lies between the two neighbouring
  values in proportion to the fractional part of the position.
\<close>

definition quantile :: "rat \<Rightarrow> rat list \<Rightarrow> rat" where
  "quantile q xs =
     (let s = sort xs;
          h = (of_nat (length s) - 1) * q;
          lo = nat \<lfloor>h\<rfloor>;
          hi = min (lo + 1) (length s - 1)
      in s ! lo + (h - of_nat lo) * (s ! hi - s ! lo))"

section \<open>Trend direction (summarize.py)\<close>

datatype trend = increasing | decreasing | stable | insufficient_data

definition detect_trend_direction :: "rat list \<Rightarrow> trend" where
  "detect_trend_direction series =
     (if length series < 2 then insufficient_data
      else
        let mid = length series div 2;
            first_half_mean = mean (take mid series);
            second_half_mean = mean (drop mid series)
        in if second_half_mean > first_half_mean * (11 / 10) then increasing
           else if second_half_mean < first_half_mean * (9 / 10) then decreasing
           else stable)"

section \<open>Library operations taken as parameters\<close>

text \<open>
  Some operations of the libraries have no definition here: the datetime parser, the
  printing of a number held in an object column, the sample standard deviation and the
  Pearson coefficient (both irrational in general; \<open>None\<close> is NaN), and the CSV reader.
  They are the fields of one record, and every result below holds for any choice of them.
\<close>

datatype encoding = utf_8 | latin1 | iso_8859_1

record library =
  to_datetime_ok :: "series \<Rightarrow> bool"
  str_num :: "rat \<Rightarrow> string"
  std :: "rat list \<Rightarrow> rat option"
  corr :: "series \<Rightarrow> series \<Rightarrow> rat option"
  read_csv :: "string \<Rightarrow> string \<Rightarrow> encoding \<Rightarrow> error + dataframe"

section \<open>Type inference (data_processor.py)\<close>

datatype coltype =
  T_unknown | T_integer | T_float | T_categorical | T_datetime | T_boolean | T_text

definition lower_char :: "char \<Rightarrow> char" where
  "lower_char c =
     (if 65 \<le> (of_char c :: nat) \<and> (of_char c :: nat) \<le> 90
      then char_of ((of_char c :: nat) + 32) else c)"

definition lower :: "string \<Rightarrow> string" where
  "lower s = map lower_char s"

definition bool_values :: "string list" where
  "bool_values =
     [''true'', ''false'', ''yes'', ''no'', ''y'', ''n'', ''1'', ''0'', ''t'', ''f'']"

fun astype_str :: "library \<Rightarrow> cell \<Rightarrow> string" where
  "astype_str lib (Str s) = s"
| "astype_str lib (Num r) = str_num lib r"

text \<open>\<open>int(x)\<close> truncates towards zero.\<close>

definition py_int :: "rat \<Rightarrow> int" where
  "py_int x = (if x \<ge> 0 then \<lfloor>x\<rfloor> else \<lceil>x\<rceil>)"

definition is_integral :: "cell \<Rightarrow> bool" where
  "is_integral c = (num_of c = of_int (py_int (num_of c)))"

text \<open>
  The body of the loop of \<open>detect_column_types\<close> for one column \<open>s\<close> of a frame of
  \<open>n\<close> rows.
\<close>

definition detect_type :: "library \<Rightarrow> nat \<Rightarrow> series \<Rightarrow> coltype" where
  "detect_type lib n s =
     (if isna_all s then T_unknown
      else if is_numeric_dtype s then
        (let non_null = dropna s in
         if length non_null > 0 \<and> list_all is_integral non_null then
           (let unique_count = nunique s in
            if unique_count \<le> 20 \<and> (of_nat unique_count / of_nat n :: rat) < 5 / 100
            then T_categorical else T_integer)
         else T_float)
      else if to_datetime_ok lib s then T_datetime
      else
        (let unique_count = nunique s;
             lower_values = map (\<lambda>c. lower (astype_str lib c)) (dropna s)
         in if set lower_values \<subseteq> set bool_values then T_boolean
            else if unique_count \<le> 20 \<or> (of_nat unique_count / of_nat n :: rat) < 5 / 100
            then T_categorical
            else T_text))"

text \<open>
  The loop over \<open>df.columns\<close>. When a label occurs twice, \<open>df[col]\<close> is a frame, the
  test \<open>if df[col].isna().all()\<close> has no truth value and raises \<open>ValueError\<close>; the
  types found so far stay in the dictionary.
\<close>

fun detect_loop ::
  "library \<Rightarrow> dataframe \<Rightarrow> string list \<Rightarrow> (string \<times> coltype) list
     \<Rightarrow> (string \<times> coltype) list \<times> error option" where
  "detect_loop lib df [] acc = (acc, None)"
| "detect_loop lib df (c # cs) acc =
     (if count_list (df_columns df) c > 1
      then (acc, Some (ValueError ''The truth value of a Series is ambiguous''))
      else
        (case getcol df c of
           Inl e \<Rightarrow> (acc, Some e)
         | Inr s \<Rightarrow> detect_loop lib df cs (acc @ [(c, detect_type lib (len_df df) s)])))"

section \<open>Outlier tests (data_processor.py, anomalies.py)\<close>

text \<open>
  \<open>DataProcessor._has_outliers\<close>: the boolean test of the profiler, which answers
  \<open>False\<close> at once for fewer than four values.
\<close>

definition has_outliers :: "series \<Rightarrow> error + bool" where
  "has_outliers series0 =
     (let series = dropna series0 in
      if length series < 4 then Inr False
      else
        ebind (numeric_data series) (\<lambda>xs.
          let Q1 = quantile (1 / 4) xs;
              Q3 = quantile (3 / 4) xs;
              IQR = Q3 - Q1;
              lower_bound = Q1 - (3 / 2) * IQR;
              upper_bound = Q3 + (3 / 2) * IQR
          in Inr (list_ex (\<lambda>x. x < lower_bound \<or> x > upper_bound) xs)))"


definition numeric_cols :: "(string \<times> coltype) list \<Rightarrow> string list" where
  "numeric_cols column_types =
     map fst (filter (\<lambda>(col, dtype). dtype \<in> {T_integer, T_float}) column_types)"

definition categorical_cols :: "(string \<times> coltype) list \<Rightarrow> string list" where
  "categorical_cols column_types =
     map fst (filter (\<lambda>(col, dtype). dtype \<in> {T_categorical, T_boolean, T_text}) column_types)"




section \<open>The interquartile test in the words of the specification\<close>




section \<open>Rows that repeat, counts of values\<close>

text \<open>
  \<open>df.duplicated()\<close> marks every row equal to an earlier row; null cells compare equal
  here. \<open>drop_duplicates\<close> keeps the rows that are not marked. On an empty frame the
  library marks nothing and drops nothing.
\<close>

fun duplicated_from :: "'a list \<Rightarrow> 'a list \<Rightarrow> bool list" where
  "duplicated_from seen [] = []"
| "duplicated_from seen (r # rs) = (r \<in> set seen) # duplicated_from (r # seen) rs"

definition duplicated :: "dataframe \<Rightarrow> bool list" where
  "duplicated df = (if df_empty df then [] else duplicated_from [] (df_rows df))"

definition duplicated_sum :: "dataframe \<Rightarrow> nat" where
  "duplicated_sum df = length (filter (\<lambda>d. d) (duplicated df))"

definition kept_from :: "'a list \<Rightarrow> 'a list \<Rightarrow> 'a list" where
  "kept_from seen rs = map fst (filter (\<lambda>(r, d). \<not> d) (zip rs (duplicated_from seen rs)))"

definition drop_duplicates :: "dataframe \<Rightarrow> dataframe" where
  "drop_duplicates df =
     (if df_empty df then df else df\<lparr>df_rows := kept_from [] (df_rows df)\<rparr>)"

text \<open>The distinct values in the order of their first appearance.\<close>

definition unique :: "'a list \<Rightarrow> 'a list" where
  "unique xs = rev (remdups (rev xs))"

text \<open>
  \<open>Series.value_counts()\<close>: the non-null values with their counts, the most frequent
  first. The library does not fix the order of values with equal counts; here they keep
  the order of first appearance.
\<close>

definition value_counts :: "series \<Rightarrow> (cell \<times> nat) list" where
  "value_counts s =
     (let d = dropna s
      in sort_key (\<lambda>(v, c). - int c) (map (\<lambda>v. (v, count_list d v)) (unique d)))"

fun str_le :: "string \<Rightarrow> string \<Rightarrow> bool" where
  "str_le [] t = True"
| "str_le (a # s) [] = False"
| "str_le (a # s) (b # t) =
     ((of_char a :: nat) < of_char b \<or> (a = b \<and> str_le s t))"

fun cell_le :: "cell \<Rightarrow> cell \<Rightarrow> bool" where
  "cell_le (Num a) (Num b) = (a \<le> b)"
| "cell_le (Str s) (Str t) = str_le s t"
| "cell_le (Num a) (Str t) = True"
| "cell_le (Str s) (Num b) = False"

text \<open>
  \<open>Series.mode()[0]\<close>: the least of the most frequent values, \<open>None\<close> when the column
  is all null. Numbers and strings do not meet in one column of a frame read from CSV;
  the order between them is a choice of the model.
\<close>

definition mode0 :: "series \<Rightarrow> cell option" where
  "mode0 s =
     (case value_counts s of
        [] \<Rightarrow> None
      | (v, c) # rest \<Rightarrow>
          Some (fold (\<lambda>w m. if cell_le w m then w else m)
                  (map fst (filter (\<lambda>(w, k). k = c) rest)) v))"

definition pct :: "nat \<Rightarrow> nat \<Rightarrow> rat option" where
  "pct k n = (if n = 0 then None else Some (of_nat k / of_nat n * 100))"

section \<open>The processor and its profile (data_processor.py)\<close>

record numeric_profile =
  np_min :: rat
  np_max :: rat
  np_mean :: rat
  np_median :: rat
  np_std :: rat
  np_has_outliers :: bool

record col_profile =
  cp_type :: coltype
  cp_missing_count :: nat
  cp_missing_percentage :: "rat option"
  cp_unique_values :: nat
  cp_numeric :: "numeric_profile option"
  cp_top_values :: "(cell \<times> nat) list option"
  cp_most_common :: "string option"

record profile =
  p_row_count :: nat
  p_column_count :: nat
  p_missing_values :: "(string \<times> nat) list"
  p_missing_percentage :: "(string \<times> rat option) list"
  p_duplicate_rows :: nat
  p_column_types :: "(string \<times> coltype) list"
  p_columns :: "(string \<times> col_profile) list"

datatype cleaning_step =
  Removed_duplicate_rows nat
  | Dropped_columns nat rat
  | Dropped_rows nat
  | Filled_means
  | Filled_modes
  | Replaced_outliers nat

record cleaning_report =
  original_rows :: nat
  original_cols :: nat
  steps_taken :: "cleaning_step list"
  cleaned_rows :: nat
  cleaned_cols :: nat
  rows_removed :: int
  cols_removed :: int

datatype log_entry =
  Data_Loaded nat nat
  | Data_Cleaned "nat \<times> nat" "nat \<times> nat" cleaning_report

text \<open>
  The fields of \<open>DataProcessor\<close>. The empty dictionary that \<open>data_profile\<close> starts as is
  \<open>None\<close>. The memory estimate and the datetime fields of the profile, which come from
  the library, and the timestamps of the log are left out.
\<close>

record processor =
  original_df :: "dataframe option"
  processed_df :: "dataframe option"
  column_datatypes :: "(string \<times> coltype) list"
  data_profile :: "profile option"
  cleaning_steps :: "log_entry list"

definition detect_column_types :: "library \<Rightarrow> processor \<Rightarrow> processor \<times> error option" where
  "detect_column_types lib p =
     (case processed_df p of
        None \<Rightarrow> (p, None)
      | Some df \<Rightarrow>
          (let (types, err) = detect_loop lib df (df_columns df) []
           in (p\<lparr>column_datatypes := types\<rparr>, err)))"

text \<open>
  The profile of one column. The numeric fields are present for a column typed
  \<open>integer\<close> or \<open>float\<close> that has a non-null value; a statistic of a column that holds a
  string raises.
\<close>

definition profile_column ::
  "library \<Rightarrow> nat \<Rightarrow> coltype \<Rightarrow> series \<Rightarrow> error + col_profile" where
  "profile_column lib n col_type s =
     (let base = \<lparr> cp_type = col_type,
                   cp_missing_count = isna_sum s,
                   cp_missing_percentage = pct (isna_sum s) n,
                   cp_unique_values = nunique s,
                   cp_numeric = None,
                   cp_top_values = None,
                   cp_most_common = None \<rparr>
      in if col_type \<in> {T_integer, T_float} then
           (case dropna s of
              [] \<Rightarrow> Inr base
            | v # vs \<Rightarrow>
                ebind (numeric_data (v # vs)) (\<lambda>xs.
                ebind (has_outliers s) (\<lambda>flag.
                  Inr (base\<lparr>cp_numeric := Some
                    \<lparr> np_min = fold min xs (num_of v),
                      np_max = fold max xs (num_of v),
                      np_mean = mean xs,
                      np_median = median xs,
                      np_std = (case std lib xs of None \<Rightarrow> 0 | Some d \<Rightarrow> d),
                      np_has_outliers = flag \<rparr>\<rparr>))))
         else if col_type \<in> {T_categorical, T_text, T_boolean} then
           Inr (base\<lparr>cp_top_values := Some (take 5 (value_counts s)),
                     cp_most_common := map_option (astype_str lib) (mode0 s)\<rparr>)
         else Inr base)"

fun profile_loop ::
  "library \<Rightarrow> dataframe \<Rightarrow> (string \<times> coltype) list \<Rightarrow> string list
     \<Rightarrow> (string \<times> col_profile) list \<Rightarrow> (string \<times> col_profile) list \<times> error option" where
  "profile_loop lib df types [] acc = (acc, None)"
| "profile_loop lib df types (c # cs) acc =
     (if count_list (df_columns df) c > 1 then (acc, Some TypeError)
      else
        (case ebind (getcol df c)
                (profile_column lib (len_df df)
                   (case map_of types c of None \<Rightarrow> T_unknown | Some t \<Rightarrow> t)) of
           Inl e \<Rightarrow> (acc, Some e)
         | Inr cp \<Rightarrow> profile_loop lib df types cs (acc @ [(c, cp)])))"

text \<open>
  The dictionary that \<open>profile_data\<close> builds from the frame and the column types, with
  the exception that interrupts the loop over the columns, if any.
\<close>

definition build_profile ::
  "library \<Rightarrow> dataframe \<Rightarrow> (string \<times> coltype) list \<Rightarrow> profile \<times> error option" where
  "build_profile lib df types =
     (let cols = map (\<lambda>i. (df_columns df ! i, column_at df i))
                   [0 ..< length (df_columns df)];
          (col_profiles, err) = profile_loop lib df types (df_columns df) []
      in (\<lparr> p_row_count = len_df df,
            p_column_count = length (df_columns df),
            p_missing_values = map (\<lambda>(c, s). (c, isna_sum s)) cols,
            p_missing_percentage =
              map (\<lambda>(c, s). (c, pct (isna_sum s) (len_df df))) cols,
            p_duplicate_rows = duplicated_sum df,
            p_column_types = types,
            p_columns = col_profiles \<rparr>, err))"

definition profile_data :: "library \<Rightarrow> processor \<Rightarrow> processor \<times> error option" where
  "profile_data lib p =
     (case processed_df p of
        None \<Rightarrow> (p, None)
      | Some df \<Rightarrow>
          (let (prof, err) = build_profile lib df (column_datatypes p)
           in (p\<lparr>data_profile := Some prof\<rparr>, err)))"

section \<open>Cleaning (data_processor.py)\<close>

definition isna_any :: "series \<Rightarrow> bool" where
  "isna_any s = list_ex (\<lambda>c. c = None) s"

definition map_column ::
  "dataframe \<Rightarrow> nat \<Rightarrow> (cell option \<Rightarrow> cell option) \<Rightarrow> dataframe" where
  "map_column df i f = df\<lparr>df_rows := map (\<lambda>r. r[i := f (cell_at r i)]) (df_rows df)\<rparr>"

definition fillna :: "dataframe \<Rightarrow> nat \<Rightarrow> cell \<Rightarrow> dataframe" where
  "fillna df i v = map_column df i (\<lambda>c. case c of None \<Rightarrow> Some v | Some w \<Rightarrow> Some w)"

definition without :: "nat list \<Rightarrow> 'a list \<Rightarrow> 'a list" where
  "without ps xs = map snd (filter (\<lambda>(i, x). i \<notin> set ps) (zip [0 ..< length xs] xs))"

definition drop_columns :: "dataframe \<Rightarrow> nat list \<Rightarrow> dataframe" where
  "drop_columns df ps =
     \<lparr> df_columns = without ps (df_columns df), df_rows = map (without ps) (df_rows df) \<rparr>"

definition ambiguous :: error where
  "ambiguous = ValueError ''The truth value of a Series is ambiguous''"

text \<open>Step 1: exact duplicate rows are dropped when asked for and when there are any.\<close>

definition remove_duplicates_step ::
  "bool \<Rightarrow> dataframe \<times> cleaning_step list \<Rightarrow> dataframe \<times> cleaning_step list" where
  "remove_duplicates_step remove_duplicates st =
     (let (df, steps) = st in
      if remove_duplicates then
        (let dup_count = duplicated_sum df in
         if dup_count > 0
         then (drop_duplicates df, steps @ [Removed_duplicate_rows dup_count])
         else (df, steps))
      else (df, steps))"

fun fill_mean_loop :: "dataframe \<Rightarrow> nat list \<Rightarrow> dataframe" where
  "fill_mean_loop df [] = df"
| "fill_mean_loop df (i # is) =
     (let s = column_at df i in
      if is_numeric_dtype s \<and> isna_any s \<and> dropna s \<noteq> []
      then fill_mean_loop (fillna df i (Num (mean (map num_of (dropna s))))) is
      else fill_mean_loop df is)"

fun fill_mode_loop :: "dataframe \<Rightarrow> nat list \<Rightarrow> dataframe" where
  "fill_mode_loop df [] = df"
| "fill_mode_loop df (i # is) =
     (let s = column_at df i in
      case mode0 s of
        Some v \<Rightarrow> if isna_any s then fill_mode_loop (fillna df i v) is
                  else fill_mode_loop df is
      | None \<Rightarrow> fill_mode_loop df is)"

text \<open>
  Step 2: the strategy is compared as a string, and a string that names no strategy does
  nothing. Where the code tests \<open>df[col]\<close> under a label that occurs twice, the test has
  no truth value and raises. \<open>fillna(..., inplace=True)\<close> on \<open>df[col]\<close> is taken to
  update the frame.
\<close>

definition handle_missing_step ::
  "string \<Rightarrow> rat \<Rightarrow> dataframe \<times> cleaning_step list
     \<Rightarrow> error + dataframe \<times> cleaning_step list" where
  "handle_missing_step handle_missing missing_threshold st =
     (let (df, steps) = st; positions = [0 ..< length (df_columns df)] in
      if handle_missing = ''drop_cols'' then
        (if \<not> distinct (df_columns df) then Inl ambiguous
         else
           let cols_to_drop =
                 filter (\<lambda>i. len_df df \<noteq> 0 \<and>
                   of_nat (isna_sum (column_at df i)) / of_nat (len_df df) > missing_threshold)
                   positions
           in if cols_to_drop \<noteq> []
              then Inr (drop_columns df cols_to_drop,
                        steps @ [Dropped_columns (length cols_to_drop) (missing_threshold * 100)])
              else Inr (df, steps))
      else if handle_missing = ''drop_rows'' then
        (let rows_before = len_df df;
             df' = df\<lparr>df_rows := filter (\<lambda>r. None \<notin> set r) (df_rows df)\<rparr>;
             rows_dropped = rows_before - len_df df'
         in if rows_dropped > 0 then Inr (df', steps @ [Dropped_rows rows_dropped])
            else Inr (df', steps))
      else if handle_missing = ''fill_mean'' then
        (if list_ex (\<lambda>i. is_numeric_dtype (column_at df i) \<and>
                count_list (df_columns df) (df_columns df ! i) > 1) positions
         then Inl ambiguous
         else Inr (fill_mean_loop df positions, steps @ [Filled_means]))
      else if handle_missing = ''fill_mode'' then
        (if \<not> distinct (df_columns df) then Inl ambiguous
         else Inr (fill_mode_loop df positions, steps @ [Filled_modes]))
      else Inr (df, steps))"

text \<open>
  Step 3: in each column typed \<open>integer\<close> or \<open>float\<close> that has at least four values, the
  values outside the interquartile bounds are replaced by the median of the column. On a
  frame with repeated labels the code fails in this step or in the type detection that
  follows it; the model reads the first column under the label and fails in the detection.
\<close>

fun remove_outliers_loop ::
  "dataframe \<Rightarrow> string list \<Rightarrow> nat \<Rightarrow> error + dataframe \<times> nat" where
  "remove_outliers_loop df [] outliers_removed = Inr (df, outliers_removed)"
| "remove_outliers_loop df (col # cols) outliers_removed =
     (case label_pos col (df_columns df) of
        None \<Rightarrow> Inl KeyError
      | Some i \<Rightarrow>
          (let data = dropna (column_at df i) in
           if length data < 4 then remove_outliers_loop df cols outliers_removed
           else
             ebind (numeric_data data) (\<lambda>xs.
               let Q1 = quantile (1 / 4) xs;
                   Q3 = quantile (3 / 4) xs;
                   IQR = Q3 - Q1;
                   lower_bound = Q1 - (3 / 2) * IQR;
                   upper_bound = Q3 + (3 / 2) * IQR;
                   outlier = (\<lambda>x. x < lower_bound \<or> x > upper_bound);
                   outliers_in_col = length (filter outlier xs);
                   m = median xs
               in remove_outliers_loop
                    (map_column df i
                       (\<lambda>c. case c of
                               None \<Rightarrow> None
                             | Some v \<Rightarrow> if outlier (num_of v) then Some (Num m) else Some v))
                    cols (outliers_removed + outliers_in_col))))"

definition remove_outliers_step ::
  "bool \<Rightarrow> (string \<times> coltype) list \<Rightarrow> dataframe \<times> cleaning_step list
     \<Rightarrow> error + dataframe \<times> cleaning_step list" where
  "remove_outliers_step remove_outliers types st =
     (let (df, steps) = st in
      if remove_outliers then
        ebind (remove_outliers_loop df
                 (filter (\<lambda>col. col \<in> set (df_columns df)) (numeric_cols types)) 0)
          (\<lambda>(df', outliers_removed).
             if outliers_removed > 0
             then Inr (df', steps @ [Replaced_outliers outliers_removed])
             else Inr (df', steps))
      else Inr (df, steps))"

text \<open>
  \<open>clean_data\<close> returns the processor as the call leaves it together with the report,
  \<open>Inr None\<close> when no frame is loaded, or the exception that the call lets through.
\<close>

definition clean_data ::
  "library \<Rightarrow> processor \<Rightarrow> bool \<Rightarrow> string \<Rightarrow> rat \<Rightarrow> bool
     \<Rightarrow> processor \<times> (error + cleaning_report option)" where
  "clean_data lib p remove_duplicates handle_missing missing_threshold remove_outliers =
     (case processed_df p of
        None \<Rightarrow> (p, Inr None)
      | Some df0 \<Rightarrow>
          (case ebind (handle_missing_step handle_missing missing_threshold
                         (remove_duplicates_step remove_duplicates (df0, [])))
                  (remove_outliers_step remove_outliers (column_datatypes p)) of
             Inl e \<Rightarrow> (p, Inl e)
           | Inr (df, steps) \<Rightarrow>
               (let (p1, e1) = detect_column_types lib (p\<lparr>processed_df := Some df\<rparr>) in
                case e1 of
                  Some e \<Rightarrow> (p1, Inl e)
                | None \<Rightarrow>
                    (let (p2, e2) = profile_data lib p1 in
                     case e2 of
                       Some e \<Rightarrow> (p2, Inl e)
                     | None \<Rightarrow>
                         (let report =
                                \<lparr> original_rows = len_df df0,
                                  original_cols = length (df_columns df0),
                                  steps_taken = steps,
                                  cleaned_rows = len_df df,
                                  cleaned_cols = length (df_columns df),
                                  rows_removed = int (len_df df0) - int (len_df df),
                                  cols_removed = int (length (df_columns df0))
                                                 - int (length (df_columns df)) \<rparr>
                          in (p2\<lparr>cleaning_steps := cleaning_steps p2 @
                                   [Data_Cleaned (len_df df0, length (df_columns df0))
                                      (len_df df, length (df_columns df)) report]\<rparr>,
                              Inr (Some report)))))))"

section \<open>Loading (data_processor.py)\<close>

text \<open>
  The reader is tried with UTF-8 and a comma; after a decoding error with Latin-1 and then
  ISO-8859-1; after a parser error with a semicolon and then a tab. An exception of the
  last attempt, or any other exception of the first, goes to the outer handler.
\<close>

definition read_with_fallback :: "library \<Rightarrow> string \<Rightarrow> error + dataframe" where
  "read_with_fallback lib f =
     (case read_csv lib f '','' utf_8 of
        Inr df \<Rightarrow> Inr df
      | Inl e \<Rightarrow>
          if e = UnicodeDecodeError then
            (case read_csv lib f '','' latin1 of
               Inr df \<Rightarrow> Inr df
             | Inl e' \<Rightarrow> read_csv lib f '','' iso_8859_1)
          else if e = ParserError then
            (case read_csv lib f '';'' utf_8 of
               Inr df \<Rightarrow> Inr df
             | Inl e' \<Rightarrow> read_csv lib f [CHR 0x09] utf_8)
          else Inl e)"

definition is_space :: "char \<Rightarrow> bool" where
  "is_space c = (c \<in> set [CHR '' '', CHR 0x09, CHR 0x0A, CHR 0x0B, CHR 0x0C, CHR 0x0D])"

definition strip :: "string \<Rightarrow> string" where
  "strip s = rev (dropWhile is_space (rev (dropWhile is_space s)))"

definition clean_name :: "string \<Rightarrow> string" where
  "clean_name s = lower (map (\<lambda>c. if c = CHR '' '' then CHR ''_'' else c) (strip s))"

text \<open>
  What the caller of \<open>load_data\<close> sees: the frame returned (\<open>None\<close> on failure or when no
  file was given) and the exception reported through \<open>st.error\<close>, if any.
\<close>

record load_outcome =
  returned :: "dataframe option"
  shown_error :: "error option"

definition failed :: "error \<Rightarrow> load_outcome" where
  "failed e = \<lparr> returned = None, shown_error = Some e \<rparr>"

definition load_data ::
  "library \<Rightarrow> processor \<Rightarrow> string option \<Rightarrow> processor \<times> load_outcome" where
  "load_data lib p uploaded_file =
     (case uploaded_file of
        None \<Rightarrow> (p, \<lparr> returned = None, shown_error = None \<rparr>)
      | Some f \<Rightarrow>
          (case read_with_fallback lib f of
             Inl e \<Rightarrow> (p, failed e)
           | Inr df0 \<Rightarrow>
               if df_empty df0 then (p, failed (ValueError ''CSV file is empty''))
               else if length (df_columns df0) = 0
               then (p, failed (ValueError ''CSV has no columns''))
               else
                 (let df = df0\<lparr>df_columns := map clean_name (df_columns df0)\<rparr>;
                      (p1, e1) = detect_column_types lib
                                   (p\<lparr>original_df := Some df, processed_df := Some df\<rparr>)
                  in case e1 of
                       Some e \<Rightarrow> (p1, failed e)
                     | None \<Rightarrow>
                         (let (p2, e2) = profile_data lib p1 in
                          case e2 of
                            Some e \<Rightarrow> (p2, failed e)
                          | None \<Rightarrow>
                              (p2\<lparr>cleaning_steps := cleaning_steps p2 @
                                    [Data_Loaded (len_df df) (length (df_columns df))]\<rparr>,
                               \<lparr> returned = Some df, shown_error = None \<rparr>)))))"

section \<open>Trends, distributions and correlations (summarize.py)\<close>

text \<open>
  A float that may be NaN is a \<open>rat option\<close>, and a comparison with NaN is false.
\<close>

definition gt_nan :: "rat option \<Rightarrow> rat \<Rightarrow> bool" where
  "gt_nan x b = (case x of None \<Rightarrow> False | Some v \<Rightarrow> v > b)"

definition lt_nan :: "rat option \<Rightarrow> rat \<Rightarrow> bool" where
  "lt_nan x b = (case x of None \<Rightarrow> False | Some v \<Rightarrow> v < b)"

definition ge_nan :: "rat option \<Rightarrow> rat \<Rightarrow> bool" where
  "ge_nan x b = (case x of None \<Rightarrow> False | Some v \<Rightarrow> v \<ge> b)"

record trend_info =
  ti_mean :: rat
  ti_median :: rat
  ti_std :: "rat option"
  ti_min :: rat
  ti_max :: rat
  ti_range :: rat
  ti_trend_direction :: trend
  ti_coefficient_of_variation :: "rat option"

fun analyze_numeric_trends_loop ::
  "library \<Rightarrow> dataframe \<Rightarrow> string list \<Rightarrow> (string \<times> trend_info) list
     \<Rightarrow> error + (string \<times> trend_info) list" where
  "analyze_numeric_trends_loop lib df [] trends = Inr trends"
| "analyze_numeric_trends_loop lib df (col # cols) trends =
     ebind (getcol df col) (\<lambda>s.
       case dropna s of
         [] \<Rightarrow> analyze_numeric_trends_loop lib df cols trends
       | v # vs \<Rightarrow>
           ebind (numeric_data (v # vs)) (\<lambda>data.
             let mean_val = mean data in
             analyze_numeric_trends_loop lib df cols
               (AList.update col
                  \<lparr> ti_mean = mean_val,
                    ti_median = median data,
                    ti_std = std lib data,
                    ti_min = fold min data (num_of v),
                    ti_max = fold max data (num_of v),
                    ti_range = fold max data (num_of v) - fold min data (num_of v),
                    ti_trend_direction = detect_trend_direction data,
                    ti_coefficient_of_variation =
                      (if mean_val \<noteq> 0
                       then map_option (\<lambda>d. d / mean_val * 100) (std lib data)
                       else Some 0) \<rparr>
                  trends)))"

definition analyze_numeric_trends ::
  "library \<Rightarrow> dataframe \<Rightarrow> (string \<times> coltype) list \<Rightarrow> error + (string \<times> trend_info) list" where
  "analyze_numeric_trends lib df column_types =
     analyze_numeric_trends_loop lib df (take 5 (numeric_cols column_types)) []"

record distribution_info =
  di_unique_count :: nat
  di_top_values :: "(cell \<times> nat) list"
  di_most_common :: string
  di_most_common_count :: nat
  di_concentration :: rat

text \<open>
  \<open>value_counts.index[0]\<close> raises \<open>IndexError\<close> on a column that is all null.
\<close>

fun analyze_categorical_distributions_loop ::
  "library \<Rightarrow> dataframe \<Rightarrow> string list \<Rightarrow> (string \<times> distribution_info) list
     \<Rightarrow> error + (string \<times> distribution_info) list" where
  "analyze_categorical_distributions_loop lib df [] distributions = Inr distributions"
| "analyze_categorical_distributions_loop lib df (col # cols) distributions =
     ebind (getcol df col) (\<lambda>s.
       case value_counts s of
         [] \<Rightarrow> Inl IndexError
       | (v, c) # rest \<Rightarrow>
           analyze_categorical_distributions_loop lib df cols
             (AList.update col
                \<lparr> di_unique_count = nunique s,
                  di_top_values = take 5 ((v, c) # rest),
                  di_most_common = astype_str lib v,
                  di_most_common_count = c,
                  di_concentration = of_nat c / of_nat (len_df df) * 100 \<rparr>
                distributions))"

definition analyze_categorical_distributions ::
  "library \<Rightarrow> dataframe \<Rightarrow> (string \<times> coltype) list
     \<Rightarrow> error + (string \<times> distribution_info) list" where
  "analyze_categorical_distributions lib df column_types =
     analyze_categorical_distributions_loop lib df (take 3 (categorical_cols column_types)) []"

record correlation_info =
  ci_coefficient :: rat
  ci_strength :: string

fun all_columns :: "dataframe \<Rightarrow> string list \<Rightarrow> error + (string \<times> series) list" where
  "all_columns df [] = Inr []"
| "all_columns df (c # cs) =
     ebind (getcol df c) (\<lambda>s. ebind (all_columns df cs) (\<lambda>rest. Inr ((c, s) # rest)))"

text \<open>
  The two nested loops over the correlation matrix: the pairs \<open>i < j\<close> in order, each
  retained when the coefficient is a number of absolute value above 0.7.
\<close>

fun correlation_pairs ::
  "library \<Rightarrow> (string \<times> series) list \<Rightarrow> (string \<times> correlation_info) list
     \<Rightarrow> (string \<times> correlation_info) list" where
  "correlation_pairs lib [] correlations = correlations"
| "correlation_pairs lib ((ci, si) # rest) correlations =
     correlation_pairs lib rest
       (fold (\<lambda>(cj, sj) acc.
                case corr lib si sj of
                  None \<Rightarrow> acc
                | Some corr_value \<Rightarrow>
                    if \<bar>corr_value\<bar> > 7 / 10
                    then AList.update (ci @ '' & '' @ cj)
                           \<lparr> ci_coefficient = corr_value,
                             ci_strength = (if corr_value > 0 then ''strong positive''
                                            else ''strong negative'') \<rparr> acc
                    else acc)
          rest correlations)"

text \<open>
  With fewer than two numeric columns the result is the empty dictionary. Otherwise the
  columns are selected (\<open>KeyError\<close> for a missing one) and correlated; a selected column
  that holds a string makes \<open>corr\<close> raise.
\<close>

definition analyze_correlations ::
  "library \<Rightarrow> dataframe \<Rightarrow> (string \<times> coltype) list
     \<Rightarrow> error + (string \<times> correlation_info) list" where
  "analyze_correlations lib df column_types =
     (if length (numeric_cols column_types) < 2 then Inr []
      else
        ebind (all_columns df (numeric_cols column_types)) (\<lambda>cols.
          if list_all (\<lambda>(c, s). is_numeric_dtype s) cols
          then Inr (correlation_pairs lib cols [])
          else Inl (ValueError ''could not convert string to float'')))"

section \<open>Forecast (predictive_insight.py)\<close>

record forecast_figure =
  fig_historical :: "rat list"
  fig_forecast :: "rat list"

record forecast_summary =
  fs_current_avg :: rat
  fs_forecast_avg :: rat
  fs_change_pct :: rat
  fs_trend :: string
  fs_avg_change :: rat

datatype insight = Message string | Forecast_summary forecast_summary

text \<open>
  The least-squares line through the points \<open>(0, y0), (1, y1), ...\<close>, which is what the
  regression of the library fits: its slope and its intercept.
\<close>

definition fit_line :: "rat list \<Rightarrow> rat \<times> rat" where
  "fit_line ys =
     (let n = length ys;
          xs = map of_nat [0 ..< n];
          xbar = mean xs;
          ybar = mean ys;
          slope = sum_list (map (\<lambda>(x, y). (x - xbar) * (y - ybar)) (zip xs ys))
                  / sum_list (map (\<lambda>x. (x - xbar) * (x - xbar)) xs)
      in (slope, ybar - slope * xbar))"

text \<open>
  \<open>simple_forecast\<close> returns a pair: the figure, or \<open>None\<close>, and the insight, which is a
  plain message when there is no figure. The regression rejects an empty set of future
  periods.
\<close>

definition simple_forecast ::
  "dataframe \<Rightarrow> string \<Rightarrow> nat \<Rightarrow> error + (forecast_figure option \<times> insight)" where
  "simple_forecast df column periods =
     ebind (getcol df column) (\<lambda>s.
       let data = dropna s in
       if length data < 10
       then Inr (None, Message ''Need at least 10 data points for forecasting'')
       else
         ebind (numeric_data data) (\<lambda>ys.
           if periods = 0 then Inl (ValueError ''Found array with 0 sample(s)'')
           else
             let (slope, intercept) = fit_line ys;
                 predictions =
                   map (\<lambda>x. intercept + slope * of_nat x) [length ys ..< length ys + periods];
                 current_avg = mean ys;
                 forecast_avg = mean predictions
             in Inr (Some \<lparr> fig_historical = ys, fig_forecast = predictions \<rparr>,
                     Forecast_summary
                       \<lparr> fs_current_avg = current_avg,
                         fs_forecast_avg = forecast_avg,
                         fs_change_pct =
                           (if current_avg \<noteq> 0
                            then (forecast_avg - current_avg) / current_avg * 100 else 0),
                         fs_trend = (if slope > 0 then ''increasing'' else ''decreasing''),
                         fs_avg_change = slope \<rparr>)))"

section \<open>Business actions (business_insight.py)\<close>

text \<open>
  An action keeps its category, the column or pair of columns its texts are written about
  (empty for the two actions about the whole dataset), its priority, owner and timeline.
  The emoji that the labels begin with and the remaining texts, which are fixed copy for
  each category, are left out.
\<close>

record action =
  a_category :: string
  a_subject :: string
  a_priority :: string
  a_owner :: string
  a_timeline :: string

definition critical :: string where "critical = ''Critical Priority''"
definition high :: string where "high = ''High Priority''"
definition strategic :: string where "strategic = ''Strategic Opportunity''"

definition missing_actions :: "dataframe \<Rightarrow> action list" where
  "missing_actions df =
     concat (map (\<lambda>i.
       let col = df_columns df ! i; p = pct (isna_sum (column_at df i)) (len_df df) in
       if gt_nan p 30 then
         [\<lparr> a_category = ''Data Quality Crisis'', a_subject = col, a_priority = critical,
            a_owner = ''Data Team / Operations Lead'', a_timeline = ''Fix within 1 week'' \<rparr>]
       else if gt_nan p 10 then
         [\<lparr> a_category = ''Data Quality Issue'', a_subject = col, a_priority = high,
            a_owner = ''Operations Manager'', a_timeline = ''Fix within 2-4 weeks'' \<rparr>]
       else []) [0 ..< length (df_columns df)])"

definition variability_actions :: "(string \<times> trend_info) list \<Rightarrow> action list" where
  "variability_actions numeric_trends =
     concat (map (\<lambda>(col, info).
       if gt_nan (ti_coefficient_of_variation info) 100 then
         [\<lparr> a_category = ''High Risk Alert'', a_subject = col, a_priority = critical,
            a_owner = ''Data Quality Team / Finance'',
            a_timeline = ''Investigate within 3 days'' \<rparr>]
       else []) numeric_trends)"

definition declining_actions :: "(string \<times> trend_info) list \<Rightarrow> action list" where
  "declining_actions numeric_trends =
     concat (map (\<lambda>(col, info).
       if ti_trend_direction info = decreasing then
         [\<lparr> a_category = ''Performance Alert'', a_subject = col, a_priority = critical,
            a_owner = ''Department Head / Management'',
            a_timeline = ''Meet within 48 hours'' \<rparr>]
       else []) numeric_trends)"

definition growing_actions :: "(string \<times> trend_info) list \<Rightarrow> action list" where
  "growing_actions numeric_trends =
     concat (map (\<lambda>(col, info).
       if ti_trend_direction info = increasing then
         [\<lparr> a_category = ''Growth Opportunity'', a_subject = col, a_priority = strategic,
            a_owner = ''Strategy Team / Business Development'',
            a_timeline = ''Capitalize within 1 month'' \<rparr>]
       else []) numeric_trends)"

definition stable_actions :: "(string \<times> trend_info) list \<Rightarrow> action list" where
  "stable_actions numeric_trends =
     concat (map (\<lambda>(col, info).
       if ti_trend_direction info = stable \<and> lt_nan (ti_coefficient_of_variation info) 10 then
         [\<lparr> a_category = ''Planning Asset'', a_subject = col, a_priority = strategic,
            a_owner = ''Planning / Finance Team'',
            a_timeline = ''Implement within 2 weeks'' \<rparr>]
       else []) numeric_trends)"

definition concentration_actions :: "(string \<times> distribution_info) list \<Rightarrow> action list" where
  "concentration_actions cat_distributions =
     concat (map (\<lambda>(col, info).
       let concentration = di_concentration info in
       if concentration > 70 then
         [\<lparr> a_category = ''Concentration Risk'', a_subject = col, a_priority = high,
            a_owner = ''Business Development / Sales'',
            a_timeline = ''Start diversification within 2 weeks'' \<rparr>]
       else if concentration < 20 then
         [\<lparr> a_category = ''Balanced Portfolio'', a_subject = col, a_priority = strategic,
            a_owner = ''Strategy Team'', a_timeline = ''Document within 1 week'' \<rparr>]
       else []) cat_distributions)"

definition correlation_actions :: "(string \<times> correlation_info) list \<Rightarrow> action list" where
  "correlation_actions correlations =
     concat (map (\<lambda>(pair, info).
       if ci_strength info = ''strong positive'' then
         [\<lparr> a_category = ''Strategic Insight'', a_subject = pair, a_priority = strategic,
            a_owner = ''Analytics / Data Science Team'',
            a_timeline = ''Build model within 3-4 weeks'' \<rparr>]
       else []) correlations)"

text \<open>
  The score of rule 8. With no cell in the frame the first division is \<open>0 / 0\<close> on
  library numbers, which is NaN and not an exception.
\<close>

definition quality_score :: "dataframe \<Rightarrow> rat option" where
  "quality_score df =
     (let total_rows = len_df df;
          total_cells = total_rows * length (df_columns df);
          missing_cells =
            sum_list (map (\<lambda>i. isna_sum (column_at df i)) [0 ..< length (df_columns df)]);
          duplicate_rows = duplicated_sum df
      in if total_cells = 0 then None
         else Some ((of_nat total_cells - of_nat missing_cells) / of_nat total_cells * 100
                    - of_nat duplicate_rows / of_nat total_rows * 10))"

definition governance_crisis :: action where
  "governance_crisis =
     \<lparr> a_category = ''Data Governance Crisis'', a_subject = [], a_priority = critical,
       a_owner = ''Chief Data Officer / Senior Leadership'',
       a_timeline = ''Kickoff within 1 week'' \<rparr>"

definition data_excellence :: action where
  "data_excellence =
     \<lparr> a_category = ''Data Excellence'', a_subject = [], a_priority = strategic,
       a_owner = ''Data Team Lead'', a_timeline = ''Document within 2 weeks'' \<rparr>"

definition governance_actions :: "dataframe \<Rightarrow> action list" where
  "governance_actions df =
     (let score = quality_score df in
      if lt_nan score 80 then [governance_crisis]
      else if ge_nan score 90 then [data_excellence]
      else [])"

text \<open>The list of actions as generated, before the sort.\<close>

definition generated_actions ::
  "library \<Rightarrow> dataframe \<Rightarrow> (string \<times> coltype) list \<Rightarrow> error + action list" where
  "generated_actions lib df column_types =
     (let first = missing_actions df in
      ebind (analyze_numeric_trends lib df column_types) (\<lambda>numeric_trends.
      ebind (analyze_categorical_distributions lib df column_types) (\<lambda>cat_distributions.
      ebind (analyze_correlations lib df column_types) (\<lambda>correlations.
        Inr (first
             @ variability_actions numeric_trends
             @ declining_actions numeric_trends
             @ growing_actions numeric_trends
             @ stable_actions numeric_trends
             @ concentration_actions cat_distributions
             @ correlation_actions correlations
             @ governance_actions df)))))"

definition priority_order :: "string \<Rightarrow> nat" where
  "priority_order p =
     (if p = critical then 0 else if p = high then 1 else if p = strategic then 2 else 3)"

text \<open>\<open>list.sort\<close> is stable, as \<open>sort_key\<close> is.\<close>

definition generate_business_actions ::
  "library \<Rightarrow> dataframe \<Rightarrow> (string \<times> coltype) list \<Rightarrow> error + action list" where
  "generate_business_actions lib df column_types =
     ebind (generated_actions lib df column_types) (\<lambda>actions.
       Inr (sort_key (\<lambda>x. priority_order (a_priority x)) actions))"

section \<open>The quality score in the words of the specification\<close>






section \<open>Example inputs\<close>

text \<open>
  A choice of the library parameters for the examples: no column parses as dates, numbers
  print as \<open>?\<close>, the deviation and the coefficient are NaN. The reader finds nothing in
  an empty file, reads a header without rows from the file \<open>units,region\<close>, cannot
  decode the byte FF under any encoding, and cannot parse anything else.
\<close>

definition example_lib :: library where
  "example_lib =
     \<lparr> to_datetime_ok = (\<lambda>s. False),
       str_num = (\<lambda>r. ''?''),
       std = (\<lambda>xs. None),
       corr = (\<lambda>s t. None),
       read_csv = (\<lambda>file sep enc.
         if file = [] then Inl EmptyDataError
         else if file = ''units,region''
         then Inr \<lparr> df_columns = [''units'', ''region''], df_rows = [] \<rparr>
         else if file = [CHR 0xFF] then Inl UnicodeDecodeError
         else Inl ParserError) \<rparr>"

definition codes_column :: series where
  "codes_column = map (\<lambda>i. Some (Num (of_nat (i mod 2)))) [0..<41]"

definition names_column :: series where
  "names_column = map (\<lambda>i. Some (Str [char_of i])) [65..<86]"

definition sales_frame :: dataframe where
  "sales_frame =
     \<lparr> df_columns = [''units'', ''region''],
       df_rows =
         [[Some (Num 1), Some (Str ''north'')],
          [Some (Num 2), None],
          [Some (Num 3), Some (Str ''south'')],
          [Some (Num 4), Some (Str ''south'')],
          [Some (Num 100), Some (Str ''south'')],
          [Some (Num 2), None]] \<rparr>"

definition sales_processor :: processor where
  "sales_processor =
     \<lparr> original_df = Some sales_frame,
       processed_df = Some sales_frame,
       column_datatypes = [(''units'', T_integer), (''region'', T_categorical)],
       data_profile = None,
       cleaning_steps = [] \<rparr>"

definition sales_types :: "(string \<times> coltype) list" where
  "sales_types = [(''units'', T_integer), (''region'', T_categorical)]"

definition units_column :: series where
  "units_column =
     [Some (Num 1), Some (Num 2), Some (Num 3), Some (Num 4), Some (Num 100), Some (Num 2)]"


definition gaps_frame :: dataframe where
  "gaps_frame =
     \<lparr> df_columns = [''units''],
       df_rows = [[Some (Num 1)], [Some (Num 2)], [Some (Num 3)], [None]] \<rparr>"




definition single_frame :: dataframe where
  "single_frame = \<lparr> df_columns = [''v'', ''w''], df_rows = [[Some (Num 7), None], [None, None]] \<rparr>"

section \<open>Null cells\<close>

lemma dropna_filter: "dropna s = map the (filter (\<lambda>c. c \<noteq> None) s)"
  by (induction s) (auto simp: dropna_def)

section \<open>Properties of the trend direction\<close>




section \<open>Properties of type inference\<close>

lemma is_integral_iff: "is_integral c \<longleftrightarrow> num_of c \<in> \<int>"
proof
  assume "is_integral c"
  then have "num_of c = of_int (py_int (num_of c))" by (simp add: is_integral_def)
  then show "num_of c \<in> \<int>" by (metis Ints_of_int)
next
  assume "num_of c \<in> \<int>"
  then obtain k where "num_of c = of_int k" by (auto elim: Ints_cases)
  then show "is_integral c" by (simp add: is_integral_def py_int_def)
qed

lemma dropna_nonempty: "\<not> isna_all s \<Longrightarrow> dropna s \<noteq> []"
  by (induction s) (auto simp: isna_all_def dropna_filter)


text \<open>
  C3. Type inference applies its rules in order, the first match winning. A column that is
  all null is \<open>unknown\<close>. Otherwise a numeric column whose non-null values are all whole
  numbers is \<open>categorical\<close> exactly when it has at most 20 distinct values and the ratio
  of distinct values to rows is below 0.05, and \<open>integer\<close> otherwise; a numeric column
  with a fractional value is \<open>float\<close>. A non-numeric column that parses as dates is
  \<open>datetime\<close>; failing that, one whose lower-cased values all lie in the boolean words
  is \<open>boolean\<close>; failing that, it is \<open>categorical\<close> exactly when it has at most 20
  distinct values or the ratio is below 0.05, and \<open>text\<close> otherwise.
\<close>

theorem C3_type_inference:
  "(isna_all s \<longrightarrow> detect_type lib n s = T_unknown) \<and>
   (\<not> isna_all s \<longrightarrow>
      (is_numeric_dtype s \<and> (\<forall>c \<in> set (dropna s). num_of c \<in> \<int>) \<longrightarrow>
         (detect_type lib n s = T_categorical \<longleftrightarrow>
            nunique s \<le> 20 \<and> (of_nat (nunique s) / of_nat n :: rat) < 5 / 100) \<and>
         (detect_type lib n s = T_integer \<longleftrightarrow>
            \<not> (nunique s \<le> 20 \<and> (of_nat (nunique s) / of_nat n :: rat) < 5 / 100))) \<and>
      (is_numeric_dtype s \<and> \<not> (\<forall>c \<in> set (dropna s). num_of c \<in> \<int>) \<longrightarrow>
         detect_type lib n s = T_float) \<and>
      (\<not> is_numeric_dtype s \<and> to_datetime_ok lib s \<longrightarrow> detect_type lib n s = T_datetime) \<and>
      (\<not> is_numeric_dtype s \<and> \<not> to_datetime_ok lib s \<and>
       (\<forall>c \<in> set (dropna s). lower (astype_str lib c) \<in> set bool_values) \<longrightarrow>
         detect_type lib n s = T_boolean) \<and>
      (\<not> is_numeric_dtype s \<and> \<not> to_datetime_ok lib s \<and>
       \<not> (\<forall>c \<in> set (dropna s). lower (astype_str lib c) \<in> set bool_values) \<longrightarrow>
         (detect_type lib n s = T_categorical \<longleftrightarrow>
            nunique s \<le> 20 \<or> (of_nat (nunique s) / of_nat n :: rat) < 5 / 100) \<and>
         (detect_type lib n s = T_text \<longleftrightarrow>
            \<not> (nunique s \<le> 20 \<or> (of_nat (nunique s) / of_nat n :: rat) < 5 / 100))))"
proof -
  define small where
    "small \<longleftrightarrow> (of_nat (nunique s) / of_nat n :: rat) < 5 / 100"
  define whole where "whole \<longleftrightarrow> (\<forall>c \<in> set (dropna s). num_of c \<in> \<int>)"
  define flags where
    "flags \<longleftrightarrow> (\<forall>c \<in> set (dropna s). lower (astype_str lib c) \<in> set bool_values)"
  have ints: "list_all is_integral (dropna s) \<longleftrightarrow> whole"
    by (simp add: list_all_iff is_integral_iff whole_def)
  have bools: "set (map (\<lambda>c. lower (astype_str lib c)) (dropna s)) \<subseteq> set bool_values
      \<longleftrightarrow> flags"
    by (auto simp: flags_def)
  have eq: "detect_type lib n s =
     (if isna_all s then T_unknown
      else if is_numeric_dtype s then
        (if whole then (if nunique s \<le> 20 \<and> small then T_categorical else T_integer)
         else T_float)
      else if to_datetime_ok lib s then T_datetime
      else if flags then T_boolean
      else if nunique s \<le> 20 \<or> small then T_categorical else T_text)"
    unfolding detect_type_def Let_def ints bools small_def [symmetric]
    using dropna_nonempty [of s] by simp
  show ?thesis
    unfolding whole_def [symmetric] flags_def [symmetric] small_def [symmetric] eq
    by simp
qed



theorem C3_type_inference_witness:
  "\<not> isna_all codes_column \<and> is_numeric_dtype codes_column \<and>
   list_all is_integral (dropna codes_column) \<and>
   detect_type example_lib 41 codes_column = T_categorical \<and>
   detect_type example_lib 40 codes_column = T_integer \<and>
   \<not> isna_all names_column \<and> \<not> is_numeric_dtype names_column \<and>
   detect_type example_lib 21 names_column = T_text \<and>
   detect_type example_lib 421 names_column = T_categorical"
proof -
  have a: "\<not> isna_all codes_column" by code_simp
  have b: "is_numeric_dtype codes_column" by code_simp
  have c0: "list_all is_integral (dropna codes_column)" by code_simp
  then have c: "\<forall>c \<in> set (dropna codes_column). num_of c \<in> \<int>"
    by (simp add: list_all_iff is_integral_iff)
  have nu: "nunique codes_column = 2" by code_simp
  have d: "nunique codes_column \<le> 20"
    and e: "(of_nat (nunique codes_column) / of_nat 41 :: rat) < 5 / 100"
    and f: "\<not> (of_nat (nunique codes_column) / of_nat 40 :: rat) < 5 / 100"
    by (simp_all add: nu)
  have g: "\<not> isna_all names_column" by code_simp
  have h: "\<not> is_numeric_dtype names_column" by code_simp
  have i: "\<not> to_datetime_ok example_lib names_column" by code_simp
  have "\<not> list_all (\<lambda>c. lower (astype_str example_lib c) \<in> set bool_values)
      (dropna names_column)"
    by code_simp
  then have j: "\<not> (\<forall>c \<in> set (dropna names_column).
      lower (astype_str example_lib c) \<in> set bool_values)"
    by (simp add: list_all_iff)
  have nu': "nunique names_column = 21" by code_simp
  have k: "\<not> nunique names_column \<le> 20"
    and l: "\<not> (of_nat (nunique names_column) / of_nat 21 :: rat) < 5 / 100"
    and m: "(of_nat (nunique names_column) / of_nat 421 :: rat) < 5 / 100"
    by (simp_all add: nu')
  have r1: "detect_type example_lib 41 codes_column = T_categorical"
    using C3_type_inference [of codes_column example_lib 41] a b c d e by simp
  have r2: "detect_type example_lib 40 codes_column = T_integer"
    using C3_type_inference [of codes_column example_lib 40] a b c f by simp
  have r3: "detect_type example_lib 21 names_column = T_text"
    using C3_type_inference [of names_column example_lib 21] g h i j k l by simp
  have r4: "detect_type example_lib 421 names_column = T_categorical"
    using C3_type_inference [of names_column example_lib 421] g h i j m by simp
  show ?thesis
    using a b c0 g h r1 r2 r3 r4 by simp
qed

section \<open>Properties of the cleaning\<close>

lemma kept_from_simps:
  "kept_from seen [] = []"
  "kept_from seen (r # rs) =
     (if r \<in> set seen then kept_from (r # seen) rs else r # kept_from (r # seen) rs)"
  by (simp_all add: kept_from_def)

lemma kept_from_fresh: "set (kept_from seen rs) \<inter> set seen = {}"
proof (induction rs arbitrary: seen)
  case Nil
  show ?case by (simp add: kept_from_simps)
next
  case (Cons r rs)
  from Cons [of "r # seen"] show ?case by (auto simp: kept_from_simps)
qed

lemma kept_from_distinct: "distinct (kept_from seen rs)"
proof (induction rs arbitrary: seen)
  case Nil
  show ?case by (simp add: kept_from_simps)
next
  case (Cons r rs)
  have "r \<notin> set (kept_from (r # seen) rs)"
    using kept_from_fresh [of "r # seen" rs] by auto
  with Cons show ?case by (simp add: kept_from_simps)
qed

lemma duplicated_from_distinct:
  "distinct rs \<Longrightarrow> set rs \<inter> set seen = {} \<Longrightarrow>
   duplicated_from seen rs = replicate (length rs) False"
  by (induction rs arbitrary: seen) auto

lemma duplicated_sum_drop_duplicates: "duplicated_sum (drop_duplicates df) = 0"
proof (cases "df_empty df")
  case True
  then show ?thesis
    by (simp add: drop_duplicates_def duplicated_sum_def duplicated_def)
next
  case False
  then have "df_rows (drop_duplicates df) = kept_from [] (df_rows df)"
    by (simp add: drop_duplicates_def)
  moreover have "duplicated_from [] (kept_from [] (df_rows df))
      = replicate (length (kept_from [] (df_rows df))) False"
    by (rule duplicated_from_distinct) (simp_all add: kept_from_distinct)
  ultimately show ?thesis
    by (simp add: duplicated_sum_def duplicated_def)
qed

lemma df_columns_drop_duplicates: "df_columns (drop_duplicates df) = df_columns df"
  by (simp add: drop_duplicates_def)


lemma label_pos_Some: "c \<in> set ls \<Longrightarrow> \<exists>i. label_pos c ls = Some i \<and> i < length ls \<and> ls ! i = c"
  by (induction ls) auto

lemma getcol_ok: "c \<in> set (df_columns df) \<Longrightarrow> \<exists>s. getcol df c = Inr s"
  using label_pos_Some [of c "df_columns df"] by (auto simp: getcol_def)

lemma count_list_one_mem: "count_list ls c = 1 \<Longrightarrow> c \<in> set ls"
  by (metis count_list_0_iff zero_neq_one)

lemma distinct_count_list: "distinct ls \<Longrightarrow> c \<in> set ls \<Longrightarrow> count_list ls c = 1"
  by (induction ls) (auto simp: count_list_0_iff)

text \<open>The type that the detection gives the column under a label.\<close>

lemma detect_loop_ok:
  assumes "\<forall>c \<in> set cs. count_list (df_columns df) c = 1"
  shows "detect_loop lib df cs acc =
     (acc @ map (\<lambda>c. (c, case getcol df c of
                            Inr s \<Rightarrow> detect_type lib (len_df df) s
                          | Inl e \<Rightarrow> T_unknown)) cs, None)"
  using assms
proof (induction cs arbitrary: acc)
  case Nil
  show ?case by simp
next
  case (Cons c cs)
  then have one: "count_list (df_columns df) c = 1" by simp
  then obtain s where s: "getcol df c = Inr s"
    using getcol_ok count_list_one_mem by metis
  from Cons have rest: "\<forall>c \<in> set cs. count_list (df_columns df) c = 1" by simp
  show ?case
    using one s Cons.IH [OF rest] by simp
qed

lemma detect_type_numeric:
  "detect_type lib n s \<in> {T_integer, T_float} \<Longrightarrow> is_numeric_dtype s"
  by (auto simp: detect_type_def Let_def split: if_splits)

lemma has_outliers_numeric:
  "is_numeric_dtype s \<Longrightarrow> \<exists>b. has_outliers s = Inr b"
  by (auto simp: has_outliers_def Let_def numeric_data_def is_numeric_dtype_def ebind_def)

lemma profile_column_ok:
  "t \<in> {T_integer, T_float} \<longrightarrow> is_numeric_dtype s \<Longrightarrow>
   \<exists>cp. profile_column lib n t s = Inr cp"
proof (cases "t \<in> {T_integer, T_float}")
  case True
  assume "t \<in> {T_integer, T_float} \<longrightarrow> is_numeric_dtype s"
  with True have num: "is_numeric_dtype s" by simp
  then obtain b where b: "has_outliers s = Inr b" using has_outliers_numeric by blast
  from num have nd: "numeric_data (dropna s) = Inr (map num_of (dropna s))"
    by (simp add: numeric_data_def is_numeric_dtype_def)
  show ?thesis
  proof (cases "dropna s")
    case Nil
    with True show ?thesis by (simp add: profile_column_def Let_def)
  next
    case (Cons v vs)
    with True nd b show ?thesis
      by (simp add: profile_column_def Let_def ebind_def del: insert_iff)
  qed
next
  case False
  then show ?thesis by (simp add: profile_column_def Let_def)
qed

lemma profile_loop_ok:
  assumes "\<forall>c \<in> set cs. count_list (df_columns df) c = 1"
    and "\<forall>c \<in> set cs. \<forall>s. getcol df c = Inr s \<longrightarrow>
           (case map_of types c of None \<Rightarrow> T_unknown | Some t \<Rightarrow> t) \<in> {T_integer, T_float}
           \<longrightarrow> is_numeric_dtype s"
  shows "snd (profile_loop lib df types cs acc) = None"
  using assms
proof (induction cs arbitrary: acc)
  case Nil
  show ?case by simp
next
  case (Cons c cs)
  then have one: "count_list (df_columns df) c = 1" by simp
  then obtain s where s: "getcol df c = Inr s"
    using getcol_ok count_list_one_mem by metis
  let ?t = "case map_of types c of None \<Rightarrow> T_unknown | Some t \<Rightarrow> t"
  from Cons.prems(2) s have "?t \<in> {T_integer, T_float} \<longrightarrow> is_numeric_dtype s" by simp
  then obtain cp where cp: "profile_column lib (len_df df) ?t s = Inr cp"
    using profile_column_ok by blast
  have "snd (profile_loop lib df types cs (acc @ [(c, cp)])) = None"
    using Cons by simp
  with one s cp show ?case by (simp add: ebind_def)
qed


lemma detect_loop_types_numeric:
  assumes "distinct (df_columns df)" and "c \<in> set (df_columns df)"
    and "getcol df c = Inr s"
    and "(case map_of (fst (detect_loop lib df (df_columns df) [])) c of
            None \<Rightarrow> T_unknown | Some t \<Rightarrow> t) \<in> {T_integer, T_float}"
  shows "is_numeric_dtype s"
proof -
  let ?f = "\<lambda>c. case getcol df c of
                    Inr s \<Rightarrow> detect_type lib (len_df df) s | Inl e \<Rightarrow> T_unknown"
  have ones: "\<forall>c \<in> set (df_columns df). count_list (df_columns df) c = 1"
    using assms(1) by (simp add: distinct_count_list)
  have "fst (detect_loop lib df (df_columns df) []) = map (\<lambda>c. (c, ?f c)) (df_columns df)"
    using detect_loop_ok [OF ones, of lib "[]"] by simp
  moreover have "map_of (map (\<lambda>c. (c, ?f c)) (df_columns df)) c = Some (?f c)"
    using assms(2) by (simp add: map_of_map_restrict)
  ultimately have "?f c \<in> {T_integer, T_float}" using assms(4) by simp
  with assms(3) show ?thesis using detect_type_numeric by simp
qed

text \<open>On a frame with distinct labels the type detection and the profile raise nothing.\<close>

lemma analysis_ok:
  assumes "distinct (df_columns d)"
  shows "detect_column_types lib (q\<lparr>processed_df := Some d\<rparr>) =
           (q\<lparr>processed_df := Some d,
               column_datatypes := fst (detect_loop lib d (df_columns d) [])\<rparr>, None)"
    and "profile_data lib
           (q\<lparr>processed_df := Some d,
               column_datatypes := fst (detect_loop lib d (df_columns d) [])\<rparr>) =
           (q\<lparr>processed_df := Some d,
               column_datatypes := fst (detect_loop lib d (df_columns d) []),
               data_profile := Some (fst (build_profile lib d
                   (fst (detect_loop lib d (df_columns d) []))))\<rparr>, None)"
proof -
  have ones: "\<forall>c \<in> set (df_columns d). count_list (df_columns d) c = 1"
    using assms by (simp add: distinct_count_list)
  have "snd (detect_loop lib d (df_columns d) []) = None"
    using detect_loop_ok [OF ones, of lib "[]"] by simp
  then show "detect_column_types lib (q\<lparr>processed_df := Some d\<rparr>) =
           (q\<lparr>processed_df := Some d,
               column_datatypes := fst (detect_loop lib d (df_columns d) [])\<rparr>, None)"
    by (simp add: detect_column_types_def case_prod_beta)
  let ?T = "fst (detect_loop lib d (df_columns d) [])"
  have "snd (profile_loop lib d ?T (df_columns d) []) = None"
  proof (rule profile_loop_ok [OF ones], intro ballI allI impI)
    fix c s
    assume "c \<in> set (df_columns d)" "getcol d c = Inr s"
      "(case map_of ?T c of None \<Rightarrow> T_unknown | Some t \<Rightarrow> t) \<in> {T_integer, T_float}"
    then show "is_numeric_dtype s"
      using detect_loop_types_numeric [OF assms] by blast
  qed
  then have "snd (build_profile lib d ?T) = None"
    by (simp add: build_profile_def Let_def case_prod_beta)
  then show "profile_data lib (q\<lparr>processed_df := Some d, column_datatypes := ?T\<rparr>) =
           (q\<lparr>processed_df := Some d, column_datatypes := ?T,
               data_profile := Some (fst (build_profile lib d ?T))\<rparr>, None)"
    by (simp add: profile_data_def case_prod_beta)
qed


text \<open>
  What a run with duplicate removal only does to a processor that holds a frame with
  distinct labels.
\<close>

lemma clean_data_plain:
  assumes loaded: "processed_df q = Some d"
    and labels: "distinct (df_columns d)"
    and plain: "h \<notin> {''drop_cols'', ''drop_rows'', ''fill_mean'', ''fill_mode''}"
  defines "d' \<equiv> (if duplicated_sum d > 0 then drop_duplicates d else d)"
  defines "steps \<equiv> (if duplicated_sum d > 0
                       then [Removed_duplicate_rows (duplicated_sum d)] else [])"
  defines "report \<equiv>
     \<lparr> original_rows = len_df d, original_cols = length (df_columns d),
       steps_taken = steps, cleaned_rows = len_df d',
       cleaned_cols = length (df_columns d'),
       rows_removed = int (len_df d) - int (len_df d'),
       cols_removed = int (length (df_columns d)) - int (length (df_columns d')) \<rparr>"
  shows "clean_data lib q True h thr False =
     (q\<lparr>processed_df := Some d',
         column_datatypes := fst (detect_loop lib d' (df_columns d') []),
         data_profile := Some (fst (build_profile lib d'
             (fst (detect_loop lib d' (df_columns d') [])))),
         cleaning_steps := cleaning_steps q @
           [Data_Cleaned (len_df d, length (df_columns d))
              (len_df d', length (df_columns d')) report]\<rparr>,
      Inr (Some report))"
proof -
  have s1: "remove_duplicates_step True (d, []) = (d', steps)"
    by (simp add: remove_duplicates_step_def d'_def steps_def Let_def)
  have s2: "handle_missing_step h thr (d', steps) = Inr (d', steps)"
    using plain by (simp add: handle_missing_step_def Let_def)
  have s3: "remove_outliers_step False (column_datatypes q) (d', steps) = Inr (d', steps)"
    by (simp add: remove_outliers_step_def)
  have dl: "distinct (df_columns d')"
    using labels by (simp add: d'_def df_columns_drop_duplicates)
  show ?thesis
    unfolding clean_data_def
    by (simp add: loaded s1 s2 s3 ebind_def analysis_ok [OF dl] report_def Let_def)
qed

text \<open>
  C6. On a processor that holds a frame with distinct column labels, two runs of the
  cleaning in succession with duplicate removal, a strategy string that names no
  missing-value strategy, and no outlier removal both return a report; the second run
  leaves the frame, the column types and the profile as the first run left them, and its
  report lists no step and removes no row and no column.
\<close>

theorem C6_duplicate_removal_idempotent:
  assumes "processed_df p = Some df"
    and "distinct (df_columns df)"
    and "h \<notin> {''drop_cols'', ''drop_rows'', ''fill_mean'', ''fill_mode''}"
  shows "\<exists>p1 r1 p2 r2.
     clean_data lib p True h thr False = (p1, Inr (Some r1)) \<and>
     clean_data lib p1 True h thr False = (p2, Inr (Some r2)) \<and>
     processed_df p2 = processed_df p1 \<and>
     column_datatypes p2 = column_datatypes p1 \<and>
     data_profile p2 = data_profile p1 \<and>
     original_df p2 = original_df p1 \<and>
     steps_taken r2 = [] \<and>
     rows_removed r2 = 0 \<and> cols_removed r2 = 0 \<and>
     cleaned_rows r2 = original_rows r2 \<and> cleaned_cols r2 = original_cols r2"
proof -
  define d' where "d' = (if duplicated_sum df > 0 then drop_duplicates df else df)"
  have nodup: "duplicated_sum d' = 0"
    by (simp add: d'_def duplicated_sum_drop_duplicates)
  have dl: "distinct (df_columns d')"
    using assms(2) by (simp add: d'_def df_columns_drop_duplicates)
  obtain p1 r1 where run1: "clean_data lib p True h thr False = (p1, Inr (Some r1))"
    and held: "processed_df p1 = Some d'"
    and types1: "column_datatypes p1 = fst (detect_loop lib d' (df_columns d') [])"
    and prof1: "data_profile p1 = Some (fst (build_profile lib d'
             (fst (detect_loop lib d' (df_columns d') []))))"
    using clean_data_plain [OF assms, of lib thr] by (simp add: d'_def)
  have again: "(if duplicated_sum d' > 0 then drop_duplicates d' else d') = d'"
    using nodup by simp
  show ?thesis
    using run1 held types1 prof1 clean_data_plain [OF held dl assms(3), of lib thr]
    by (simp add: again nodup)
qed

theorem C6_duplicate_removal_idempotent_witness:
  "processed_df sales_processor = Some sales_frame \<and>
   distinct (df_columns sales_frame) \<and>
   duplicated_sum sales_frame = 1 \<and>
   (\<exists>p1 r1 p2 r2.
     clean_data example_lib sales_processor True ''none'' (1 / 2) False
       = (p1, Inr (Some r1)) \<and>
     clean_data example_lib p1 True ''none'' (1 / 2) False = (p2, Inr (Some r2)) \<and>
     processed_df p2 = processed_df p1 \<and>
     column_datatypes p2 = column_datatypes p1 \<and>
     data_profile p2 = data_profile p1 \<and>
     original_df p2 = original_df p1 \<and>
     steps_taken r2 = [] \<and>
     rows_removed r2 = 0 \<and> cols_removed r2 = 0 \<and>
     cleaned_rows r2 = original_rows r2 \<and> cleaned_cols r2 = original_cols r2)"
proof -
  have a: "processed_df sales_processor = Some sales_frame"
    by (simp add: sales_processor_def)
  have b: "distinct (df_columns sales_frame)"
    by (simp add: sales_frame_def)
  have c: "''none'' \<notin> {''drop_cols'', ''drop_rows'', ''fill_mean'', ''fill_mode''}"
    by simp
  have d: "duplicated_sum sales_frame = 1"
    by code_simp
  show ?thesis
    using a b d C6_duplicate_removal_idempotent [OF a b c, of example_lib "1 / 2"]
    by simp
qed

section \<open>Properties of the loading\<close>

text \<open>
  C9. When the reading of the file fails, or the frame that was read has no rows or no
  columns, \<open>load_data\<close> returns no frame, reports the exception, and leaves the
  processor exactly as it was. The reading fails when the reader finds an empty file,
  when the file decodes under none of the three encodings, and when it parses under none
  of the three delimiters.
\<close>

theorem C9_load_failure_keeps_state:
  "(read_with_fallback lib f = Inl e \<longrightarrow>
      load_data lib p (Some f) = (p, \<lparr> returned = None, shown_error = Some e \<rparr>)) \<and>
   (read_with_fallback lib f = Inr df \<and> (len_df df = 0 \<or> df_columns df = []) \<longrightarrow>
      load_data lib p (Some f) =
        (p, \<lparr> returned = None, shown_error = Some (ValueError ''CSV file is empty'') \<rparr>)) \<and>
   (read_csv lib f '','' utf_8 = Inl EmptyDataError \<longrightarrow>
      load_data lib p (Some f) =
        (p, \<lparr> returned = None, shown_error = Some EmptyDataError \<rparr>)) \<and>
   (read_csv lib f '','' utf_8 = Inl UnicodeDecodeError \<and>
    read_csv lib f '','' latin1 = Inl e1 \<and> read_csv lib f '','' iso_8859_1 = Inl e2 \<longrightarrow>
      load_data lib p (Some f) = (p, \<lparr> returned = None, shown_error = Some e2 \<rparr>)) \<and>
   (read_csv lib f '','' utf_8 = Inl ParserError \<and>
    read_csv lib f '';'' utf_8 = Inl e1 \<and> read_csv lib f [CHR 0x09] utf_8 = Inl e2 \<longrightarrow>
      load_data lib p (Some f) = (p, \<lparr> returned = None, shown_error = Some e2 \<rparr>))"
proof -
  have fail: "load_data lib p (Some f) = (p, \<lparr> returned = None, shown_error = Some e \<rparr>)"
    if "read_with_fallback lib f = Inl e" for e
    using that by (simp add: load_data_def failed_def)
  have empty: "load_data lib p (Some f) =
      (p, \<lparr> returned = None, shown_error = Some (ValueError ''CSV file is empty'') \<rparr>)"
    if "read_with_fallback lib f = Inr df" "len_df df = 0 \<or> df_columns df = []"
    using that by (auto simp: load_data_def failed_def df_empty_def)
  have r1: "read_with_fallback lib f = Inl EmptyDataError"
    if "read_csv lib f '','' utf_8 = Inl EmptyDataError"
    using that by (simp add: read_with_fallback_def)
  have r2: "read_with_fallback lib f = Inl e2"
    if "read_csv lib f '','' utf_8 = Inl UnicodeDecodeError"
      "read_csv lib f '','' latin1 = Inl e1" "read_csv lib f '','' iso_8859_1 = Inl e2"
    using that by (simp add: read_with_fallback_def)
  have r3: "read_with_fallback lib f = Inl e2"
    if "read_csv lib f '','' utf_8 = Inl ParserError"
      "read_csv lib f '';'' utf_8 = Inl e1" "read_csv lib f [CHR 0x09] utf_8 = Inl e2"
    using that by (simp add: read_with_fallback_def)
  show ?thesis
    using fail empty r1 r2 r3 by blast
qed

theorem C9_load_failure_keeps_state_witness:
  "load_data example_lib sales_processor (Some []) =
     (sales_processor, \<lparr> returned = None, shown_error = Some EmptyDataError \<rparr>) \<and>
   load_data example_lib sales_processor (Some ''units,region'') =
     (sales_processor,
      \<lparr> returned = None, shown_error = Some (ValueError ''CSV file is empty'') \<rparr>) \<and>
   load_data example_lib sales_processor (Some [CHR 0xFF]) =
     (sales_processor, \<lparr> returned = None, shown_error = Some UnicodeDecodeError \<rparr>) \<and>
   load_data example_lib sales_processor (Some ''a|b'') =
     (sales_processor, \<lparr> returned = None, shown_error = Some ParserError \<rparr>)"
proof -
  have a: "read_csv example_lib [] '','' utf_8 = Inl EmptyDataError"
    by (simp add: example_lib_def)
  have b: "read_with_fallback example_lib ''units,region'' =
      Inr \<lparr> df_columns = [''units'', ''region''], df_rows = [] \<rparr>"
    by (simp add: example_lib_def read_with_fallback_def)
  have b': "len_df \<lparr> df_columns = [''units'', ''region''], df_rows = [] \<rparr> = 0"
    by (simp add: len_df_def)
  have c: "read_csv example_lib [CHR 0xFF] '','' enc = Inl UnicodeDecodeError" for enc
    by (simp add: example_lib_def)
  have d: "read_csv example_lib ''a|b'' sep utf_8 = Inl ParserError" for sep
    by (simp add: example_lib_def)
  have e: "read_with_fallback example_lib ''a|b'' = Inl ParserError"
    by (simp add: example_lib_def read_with_fallback_def)
  show ?thesis
    using C9_load_failure_keeps_state [of example_lib "[]" _ sales_processor] a
      C9_load_failure_keeps_state [of example_lib "''units,region''" _ sales_processor
        "\<lparr> df_columns = [''units'', ''region''], df_rows = [] \<rparr>"] b b'
      C9_load_failure_keeps_state [of example_lib "[CHR 0xFF]" _ sales_processor _
        UnicodeDecodeError UnicodeDecodeError] c
      C9_load_failure_keeps_state [of example_lib "''a|b''" ParserError sales_processor _
        ParserError ParserError] d e
    by simp
qed

section \<open>Properties of the outlier tests\<close>
































section \<open>Insufficient data\<close>

text \<open>
  C7. The insufficient-data conditions give a value, not an exception: the trend direction
  of fewer than two values is \<open>insufficient_data\<close>; in the trend analysis a numeric
  column without a value is skipped and one with a single value gets an entry with that
  direction; with fewer than two numeric columns the correlation analysis returns the
  empty dictionary; and the forecast of a column of the frame with fewer than ten non-null
  values returns no figure together with the message that at least ten data points are
  needed.
\<close>

theorem C7_insufficient_data:
  "(length xs < 2 \<longrightarrow> detect_trend_direction xs = insufficient_data) \<and>
   (getcol df column = Inr s \<and> dropna s = [] \<longrightarrow>
      analyze_numeric_trends lib df [(column, T_float)] = Inr []) \<and>
   (getcol df column = Inr s \<and> dropna s = [Num x] \<longrightarrow>
      (\<exists>info. analyze_numeric_trends lib df [(column, T_float)] = Inr [(column, info)] \<and>
         ti_trend_direction info = insufficient_data)) \<and>
   (length (numeric_cols column_types) < 2 \<longrightarrow>
      analyze_correlations lib df column_types = Inr []) \<and>
   (getcol df column = Inr s \<and> length (dropna s) < 10 \<longrightarrow>
      simple_forecast df column periods =
        Inr (None, Message ''Need at least 10 data points for forecasting''))"
proof -
  have cols: "take 5 (numeric_cols [(column, T_float)]) = [column]"
    by (simp add: numeric_cols_def)
  have a: "length xs < 2 \<longrightarrow> detect_trend_direction xs = insufficient_data"
    by (simp add: detect_trend_direction_def)
  have b: "getcol df column = Inr s \<and> dropna s = [] \<longrightarrow>
      analyze_numeric_trends lib df [(column, T_float)] = Inr []"
    by (simp add: analyze_numeric_trends_def cols ebind_def)
  have c: "getcol df column = Inr s \<and> dropna s = [Num x] \<longrightarrow>
      (\<exists>info. analyze_numeric_trends lib df [(column, T_float)] = Inr [(column, info)] \<and>
         ti_trend_direction info = insufficient_data)"
    by (simp add: analyze_numeric_trends_def cols ebind_def numeric_data_def Let_def
        detect_trend_direction_def)
  have d: "length (numeric_cols column_types) < 2 \<longrightarrow>
      analyze_correlations lib df column_types = Inr []"
    by (simp add: analyze_correlations_def)
  have e: "getcol df column = Inr s \<and> length (dropna s) < 10 \<longrightarrow>
      simple_forecast df column periods =
        Inr (None, Message ''Need at least 10 data points for forecasting'')"
    by (simp add: simple_forecast_def ebind_def)
  from a b c d e show ?thesis by (intro conjI)
qed

theorem C7_insufficient_data_witness:
  "length [7 :: rat] < 2 \<and> detect_trend_direction [7] = insufficient_data \<and>
   getcol single_frame ''w'' = Inr [None, None] \<and>
   analyze_numeric_trends example_lib single_frame [(''w'', T_float)] = Inr [] \<and>
   getcol single_frame ''v'' = Inr [Some (Num 7), None] \<and>
   (\<exists>info. analyze_numeric_trends example_lib single_frame [(''v'', T_float)]
        = Inr [(''v'', info)] \<and> ti_trend_direction info = insufficient_data) \<and>
   length (numeric_cols sales_types) < 2 \<and>
   analyze_correlations example_lib sales_frame sales_types = Inr [] \<and>
   getcol sales_frame ''units'' = Inr units_column \<and>
   length (dropna units_column) < 10 \<and>
   simple_forecast sales_frame ''units'' 5 =
     Inr (None, Message ''Need at least 10 data points for forecasting'')"
proof -
  have a: "length [7 :: rat] < 2" by simp
  have b: "length (numeric_cols sales_types) < 2"
    by (simp add: sales_types_def numeric_cols_def)
  have c: "getcol sales_frame ''units'' = Inr units_column" by code_simp
  have d: "length (dropna units_column) < 10" by code_simp
  have e: "getcol single_frame ''w'' = Inr [None, None]" by code_simp
  have e': "dropna [None, None] = []" by (simp add: dropna_filter)
  have f: "getcol single_frame ''v'' = Inr [Some (Num 7), None]" by code_simp
  have f': "dropna [Some (Num 7), None] = [Num 7]" by (simp add: dropna_filter)
  note t1 = C7_insufficient_data [of "[7]" sales_frame "''units''" units_column
      example_lib 0 sales_types 5]
  note t2 = C7_insufficient_data [of "[]" single_frame "''w''" "[None, None]"
      example_lib 0 "[]" 5]
  note t3 = C7_insufficient_data [of "[]" single_frame "''v''" "[Some (Num 7), None]"
      example_lib 7 "[]" 5]
  from t1 a b c d have r1: "detect_trend_direction [7] = insufficient_data"
    "analyze_correlations example_lib sales_frame sales_types = Inr []"
    "simple_forecast sales_frame ''units'' 5 =
       Inr (None, Message ''Need at least 10 data points for forecasting'')"
    by simp_all
  from t2 e e' have r2:
    "analyze_numeric_trends example_lib single_frame [(''w'', T_float)] = Inr []"
    by simp
  from t3 f f' have r3:
    "\<exists>info. analyze_numeric_trends example_lib single_frame [(''v'', T_float)]
        = Inr [(''v'', info)] \<and> ti_trend_direction info = insufficient_data"
    by simp
  from a b c d e f r1 r2 r3 show ?thesis by (intro conjI)
qed

section \<open>Properties of the business actions\<close>

lemma priority_order_simps:
  "priority_order critical = 0" "priority_order high = 1" "priority_order strategic = 2"
  by (simp_all add: priority_order_def critical_def high_def strategic_def)

lemma priority_order_zero: "priority_order p = 0 \<longleftrightarrow> p = critical"
  by (simp add: priority_order_def)

lemma priority_order_two: "priority_order p = 2 \<longleftrightarrow> p = strategic \<and> p \<noteq> critical \<and> p \<noteq> high"
  by (auto simp: priority_order_def)

lemma missing_actions_shape:
  "a \<in> set (missing_actions df) \<Longrightarrow>
   (a_category a = ''Data Quality Crisis'' \<and> a_priority a = critical) \<or>
   (a_category a = ''Data Quality Issue'' \<and> a_priority a = high)"
  by (auto simp: missing_actions_def Let_def split: if_splits)

lemma variability_actions_shape:
  "a \<in> set (variability_actions t) \<Longrightarrow>
   a_category a = ''High Risk Alert'' \<and> a_priority a = critical"
  by (auto simp: variability_actions_def split: if_splits)

lemma declining_actions_shape:
  "a \<in> set (declining_actions t) \<Longrightarrow>
   a_category a = ''Performance Alert'' \<and> a_priority a = critical"
  by (auto simp: declining_actions_def split: if_splits)

lemma growing_actions_shape:
  "a \<in> set (growing_actions t) \<Longrightarrow>
   a_category a = ''Growth Opportunity'' \<and> a_priority a = strategic"
  by (auto simp: growing_actions_def split: if_splits)

lemma stable_actions_shape:
  "a \<in> set (stable_actions t) \<Longrightarrow>
   a_category a = ''Planning Asset'' \<and> a_priority a = strategic"
  by (auto simp: stable_actions_def split: if_splits)

lemma concentration_actions_shape:
  "a \<in> set (concentration_actions d) \<Longrightarrow>
   (a_category a = ''Concentration Risk'' \<and> a_priority a = high) \<or>
   (a_category a = ''Balanced Portfolio'' \<and> a_priority a = strategic)"
  by (auto simp: concentration_actions_def Let_def split: if_splits)

lemma correlation_actions_shape:
  "a \<in> set (correlation_actions c) \<Longrightarrow>
   a_category a = ''Strategic Insight'' \<and> a_priority a = strategic"
  by (auto simp: correlation_actions_def split: if_splits)

lemma governance_actions_shape:
  "a \<in> set (governance_actions df) \<Longrightarrow>
   (a = governance_crisis \<and> a_priority a = critical) \<or>
   (a = data_excellence \<and> a_priority a = strategic)"
  by (auto simp: governance_actions_def Let_def governance_crisis_def data_excellence_def
      split: if_splits)

text \<open>The list before the sort, rule family by rule family.\<close>

lemma generated_actions_Inr:
  assumes "generated_actions lib df column_types = Inr g"
  obtains t d c where
    "analyze_numeric_trends lib df column_types = Inr t"
    "analyze_categorical_distributions lib df column_types = Inr d"
    "analyze_correlations lib df column_types = Inr c"
    "g = missing_actions df @ variability_actions t @ declining_actions t
         @ growing_actions t @ stable_actions t @ concentration_actions d
         @ correlation_actions c @ governance_actions df"
  using assms
  by (auto simp: generated_actions_def Let_def ebind_def split: sum.splits)

lemma generated_priorities:
  assumes "generated_actions lib df column_types = Inr g" and "a \<in> set g"
  shows "a_priority a = critical \<or> a_priority a = high \<or> a_priority a = strategic"
proof -
  from assms(1) obtain t d c where
    g: "g = missing_actions df @ variability_actions t @ declining_actions t
         @ growing_actions t @ stable_actions t @ concentration_actions d
         @ correlation_actions c @ governance_actions df"
    by (rule generated_actions_Inr)
  from assms(2) show ?thesis
    unfolding g set_append Un_iff
    using missing_actions_shape variability_actions_shape declining_actions_shape
      growing_actions_shape stable_actions_shape concentration_actions_shape
      correlation_actions_shape governance_actions_shape
    by blast
qed

lemma generate_business_actions_Inr:
  assumes "generate_business_actions lib df column_types = Inr actions"
  obtains g where "generated_actions lib df column_types = Inr g"
    "actions = sort_key (\<lambda>x. priority_order (a_priority x)) g"
  using assms
  by (auto simp: generate_business_actions_def ebind_def split: sum.splits)

text \<open>
  C2. When the generator returns a list, it is the list of the generated actions sorted by
  priority: the keys are in ascending order, critical before high before strategic; for
  each key the actions of that key appear in the order in which they were generated; every
  action has one of the three priorities; no action that is not critical stands before a
  critical one, and no strategic action stands before a high one.
\<close>

theorem C2_actions_sorted_stable:
  assumes "generate_business_actions lib df column_types = Inr actions"
  shows "\<exists>generated. generated_actions lib df column_types = Inr generated \<and>
     length actions = length generated \<and> set actions = set generated \<and>
     sorted (map (\<lambda>a. priority_order (a_priority a)) actions) \<and>
     (\<forall>k. filter (\<lambda>a. priority_order (a_priority a) = k) actions =
          filter (\<lambda>a. priority_order (a_priority a) = k) generated) \<and>
     (\<forall>a \<in> set actions.
        a_priority a = critical \<or> a_priority a = high \<or> a_priority a = strategic) \<and>
     (\<forall>i j. i < j \<and> j < length actions \<longrightarrow>
        (a_priority (actions ! j) = critical \<longrightarrow> a_priority (actions ! i) = critical) \<and>
        (a_priority (actions ! j) = high \<longrightarrow> a_priority (actions ! i) \<noteq> strategic))"
proof -
  let ?key = "\<lambda>a. priority_order (a_priority a)"
  from assms obtain g where g: "generated_actions lib df column_types = Inr g"
    and act: "actions = sort_key ?key g"
    by (rule generate_business_actions_Inr)
  have len: "length actions = length g" and st: "set actions = set g"
    by (simp_all add: act)
  have srt: "sorted (map ?key actions)"
    by (simp add: act)
  have stab: "\<forall>k. filter (\<lambda>a. ?key a = k) actions = filter (\<lambda>a. ?key a = k) g"
    by (simp add: act sort_key_stable)
  have prio: "\<forall>a \<in> set actions.
      a_priority a = critical \<or> a_priority a = high \<or> a_priority a = strategic"
    using generated_priorities [OF g] st by blast
  have order: "(a_priority (actions ! j) = critical \<longrightarrow> a_priority (actions ! i) = critical) \<and>
        (a_priority (actions ! j) = high \<longrightarrow> a_priority (actions ! i) \<noteq> strategic)"
    if "i < j \<and> j < length actions" for i j
  proof -
    from that have le: "?key (actions ! i) \<le> ?key (actions ! j)"
      using sorted_nth_mono [OF srt, of i j] by simp
    show ?thesis
    proof (intro conjI impI)
      assume "a_priority (actions ! j) = critical"
      with le have "?key (actions ! i) = 0" by (simp add: priority_order_simps)
      then show "a_priority (actions ! i) = critical" by (simp add: priority_order_zero)
    next
      assume "a_priority (actions ! j) = high"
      with le have "?key (actions ! i) \<le> 1" by (simp add: priority_order_simps)
      then show "a_priority (actions ! i) \<noteq> strategic"
        by (auto simp: priority_order_simps)
    qed
  qed
  then have order': "\<forall>i j. i < j \<and> j < length actions \<longrightarrow>
        (a_priority (actions ! j) = critical \<longrightarrow> a_priority (actions ! i) = critical) \<and>
        (a_priority (actions ! j) = high \<longrightarrow> a_priority (actions ! i) \<noteq> strategic)"
    by blast
  show ?thesis
    by (rule exI [of _ g]) (intro conjI g len st srt stab prio order')
qed

theorem C2_actions_sorted_stable_witness:
  "generate_business_actions example_lib gaps_frame [(''units'', T_integer)] =
     Inr [governance_crisis,
          \<lparr> a_category = ''Data Quality Issue'', a_subject = ''units'', a_priority = high,
            a_owner = ''Operations Manager'', a_timeline = ''Fix within 2-4 weeks'' \<rparr>,
          \<lparr> a_category = ''Growth Opportunity'', a_subject = ''units'',
            a_priority = strategic, a_owner = ''Strategy Team / Business Development'',
            a_timeline = ''Capitalize within 1 month'' \<rparr>] \<and>
   generated_actions example_lib gaps_frame [(''units'', T_integer)] =
     Inr [\<lparr> a_category = ''Data Quality Issue'', a_subject = ''units'', a_priority = high,
            a_owner = ''Operations Manager'', a_timeline = ''Fix within 2-4 weeks'' \<rparr>,
          \<lparr> a_category = ''Growth Opportunity'', a_subject = ''units'',
            a_priority = strategic, a_owner = ''Strategy Team / Business Development'',
            a_timeline = ''Capitalize within 1 month'' \<rparr>,
          governance_crisis] \<and>
   (\<exists>generated.
      generated_actions example_lib gaps_frame [(''units'', T_integer)] = Inr generated \<and>
      filter (\<lambda>a. priority_order (a_priority a) = 0) generated = [governance_crisis])"
proof -
  let ?issue = "\<lparr> a_category = ''Data Quality Issue'', a_subject = ''units'',
      a_priority = high, a_owner = ''Operations Manager'',
      a_timeline = ''Fix within 2-4 weeks'' \<rparr>"
  let ?growth = "\<lparr> a_category = ''Growth Opportunity'', a_subject = ''units'',
      a_priority = strategic, a_owner = ''Strategy Team / Business Development'',
      a_timeline = ''Capitalize within 1 month'' \<rparr>"
  have ev: "generate_business_actions example_lib gaps_frame [(''units'', T_integer)] =
      Inr [governance_crisis, ?issue, ?growth]"
    by code_simp
  have gen: "generated_actions example_lib gaps_frame [(''units'', T_integer)] =
      Inr [?issue, ?growth, governance_crisis]"
    by code_simp
  have keys: "filter (\<lambda>a. priority_order (a_priority a) = 0)
      [governance_crisis, ?issue, ?growth] = [governance_crisis]"
    by (simp add: governance_crisis_def priority_order_simps)
  from C2_actions_sorted_stable [OF ev] obtain generated
    where g: "generated_actions example_lib gaps_frame [(''units'', T_integer)] = Inr generated"
      and stab: "\<forall>k. filter (\<lambda>a. priority_order (a_priority a) = k)
          [governance_crisis, ?issue, ?growth] =
          filter (\<lambda>a. priority_order (a_priority a) = k) generated"
    by blast
  from stab keys have "filter (\<lambda>a. priority_order (a_priority a) = 0) generated
      = [governance_crisis]"
    by metis
  with g ev gen show ?thesis by blast
qed






section \<open>Properties of the concentration\<close>










end
